theory Spec2Isabelle
  imports Complex_Main "HOL-Library.Sublist"
begin

section \<open>Numbers and strings of the TypeScript source\<close>

text \<open>
  The service is \<^verbatim>\<open>src/index.ts\<close>. Every number the detection code touches is a decimal
  literal of the source or a number of the request, and the only arithmetic is one
  subtraction (\<^verbatim>\<open>4.0 - gasCost\<close>) and comparisons. Numbers are modelled as exact
  rationals: the decimal literal \<^verbatim>\<open>0.998\<close> is \<open>998 / 1000\<close>, and a number of a request
  is taken at its decimal value. The rounding of IEEE doubles (of the literals and of
  the subtraction) is not part of the model: where the model has the exact difference
  \<open>49 / 10 - 1 / 100\<close>, the source computes the double \<^verbatim>\<open>4.890000000000001\<close>. Order, sign
  and comparisons of the values are the same in both; a statement about the result of
  the subtraction is therefore made up to \<open>rounding_tolerance\<close> (defined below), not as
  an exact equation.
\<close>

type_synonym number = rat

text \<open>
  \<^verbatim>\<open>String.prototype.toLowerCase\<close>, on the ASCII range: the letters \<^verbatim>\<open>A\<close> to \<^verbatim>\<open>Z\<close> (codes 65 to
  90) move to \<^verbatim>\<open>a\<close> to \<^verbatim>\<open>z\<close>, every other character stays. Token addresses are
  hexadecimal ASCII strings.
\<close>

definition lower_char :: "char \<Rightarrow> char" where
  "lower_char c =
     (let n = (of_char c :: nat) in if 65 \<le> n \<and> n \<le> 90 then char_of (n + 32) else c)"

definition toLowerCase :: "string \<Rightarrow> string" where
  "toLowerCase s = map lower_char s"

section \<open>The data model\<close>

text \<open>\<^verbatim>\<open>interface ArbitrageOpportunity\<close>; \<^verbatim>\<open>token_address?\<close> is optional.\<close>

record ArbitrageOpportunity =
  token_symbol :: string
  token_address :: "string option"
  buy_dex :: string
  sell_dex :: string
  buy_price :: number
  sell_price :: number
  profit_percentage :: number
  profit_usd_per_1k :: number
  gas_cost_usd :: number
  net_profit_usd :: number
  executable :: bool

text \<open>
  \<^verbatim>\<open>const CHAIN_GAS_COSTS: Record<number, number>\<close>, as the list of its entries in source
  order. A read \<^verbatim>\<open>CHAIN_GAS_COSTS[chainId]\<close> of a key that is not in the table is
  \<^verbatim>\<open>undefined\<close>, here \<open>None\<close>.
\<close>

definition CHAIN_GAS_COSTS :: "(number \<times> number) list" where
  "CHAIN_GAS_COSTS =
     [(1, 5), (8453, 1 / 100), (42161, 15 / 100), (10, 5 / 100), (137, 2 / 100), (56, 8 / 100)]"

text \<open>
  \<^verbatim>\<open>v || d\<close> for a number or \<^verbatim>\<open>undefined\<close> on the left: the right operand is taken when
  the left one is falsy, which for these values means \<^verbatim>\<open>undefined\<close> or zero.
\<close>

definition or_default :: "number option \<Rightarrow> number \<Rightarrow> number" where
  "or_default v d = (case v of None \<Rightarrow> d | Some x \<Rightarrow> if x = 0 then d else x)"

text \<open>\<^verbatim>\<open>const gasCost = CHAIN_GAS_COSTS[chainId] || 2.5;\<close>\<close>

definition gasCost :: "number \<Rightarrow> number" where
  "gasCost chainId = or_default (map_of CHAIN_GAS_COSTS chainId) (5 / 2)"

text \<open>
  The array literal \<^verbatim>\<open>mockOpportunities\<close>, which closes over \<^verbatim>\<open>gasCost\<close>. Each
  \<open>net_profit_usd\<close> is the exact difference; the source's value is that difference
  rounded to a double.
\<close>

definition mockOpportunities :: "number \<Rightarrow> ArbitrageOpportunity list" where
  "mockOpportunities g =
     [\<lparr>token_symbol = ''USDC'',
       token_address = Some ''0xA0b86991c6218b36c1d19D4a2e9Eb0cE3606eB48'',
       buy_dex = ''Uniswap V3'',
       sell_dex = ''SushiSwap'',
       buy_price = 998 / 1000,
       sell_price = 1002 / 1000,
       profit_percentage = 4 / 10,
       profit_usd_per_1k = 4,
       gas_cost_usd = g,
       net_profit_usd = 4 - g,
       executable = (4 - g > 0)\<rparr>,
      \<lparr>token_symbol = ''WETH'',
       token_address = Some ''0xC02aaA39b223FE8D0A0e5C4F27eAD9083C756Cc2'',
       buy_dex = ''Curve'',
       sell_dex = ''Balancer'',
       buy_price = 24855 / 10,
       sell_price = 24978 / 10,
       profit_percentage = 49 / 100,
       profit_usd_per_1k = 49 / 10,
       gas_cost_usd = g,
       net_profit_usd = 49 / 10 - g,
       executable = (49 / 10 - g > 0)\<rparr>,
      \<lparr>token_symbol = ''USDT'',
       token_address = Some ''0xdAC17F958D2ee523a2206206994597C13D831ec7'',
       buy_dex = ''Uniswap V2'',
       sell_dex = ''Pancakeswap'',
       buy_price = 9985 / 10000,
       sell_price = 10005 / 10000,
       profit_percentage = 2 / 10,
       profit_usd_per_1k = 2,
       gas_cost_usd = g,
       net_profit_usd = 2 - g,
       executable = (2 - g > 0)\<rparr>]"

text \<open>
  The input of the entrypoint, after validation (the type inferred from
  \<^verbatim>\<open>ArbitrageInputSchema\<close>): \<^verbatim>\<open>token_addresses\<close> is optional.
\<close>

record ArbitrageInput =
  chain_id :: number
  min_profit_pct :: number
  token_addresses :: "string list option"

text \<open>
  The payload both handlers return (\<^verbatim>\<open>ArbitrageOutputSchema\<close>). \<^verbatim>\<open>timestamp\<close> is
  \<^verbatim>\<open>new Date().toISOString()\<close>, a reading of the clock.
\<close>

record ArbitrageOutput =
  opportunities :: "ArbitrageOpportunity list"
  total_found :: nat
  timestamp :: string

text \<open>
  A request body as \<^verbatim>\<open>c.req.json()\<close> returns it. An object is the list of its
  properties, read with \<open>map_of\<close>; a key that is not there reads as \<^verbatim>\<open>undefined\<close>
  (\<open>None\<close>).
\<close>

datatype json =
  JNull
| JBool bool
| JNum number
| JStr string
| JArr "json list"
| JObj "(string \<times> json) list"

text \<open>
  What the \<^verbatim>\<open>try\<close> block of the internal endpoint can throw: \<^verbatim>\<open>c.req.json()\<close> on a body
  that is not JSON, and \<^verbatim>\<open>ArbitrageInputSchema.parse\<close> on a body that does not fit the
  schema (a \<^verbatim>\<open>ZodError\<close>, kept here as the names of the top-level fields that failed,
  the empty name for a body that is not an object).
\<close>

datatype thrown = SyntaxError | ZodError "string list"

datatype error_body = ServerConfigurationError | Unauthorized | Thrown thrown

text \<open>\<^verbatim>\<open>c.json(payload, status)\<close>: the success payload, or a status with an error body.\<close>

datatype response = Json200 ArbitrageOutput | JsonError nat error_body

text \<open>
  What the internal endpoint reads of a request: the header \<^verbatim>\<open>X-Internal-API-Key\<close> and
  the body (\<open>None\<close> when it is not JSON).
\<close>

record InternalRequest =
  api_key_header :: "string option"
  json_body :: "json option"

section \<open>Detection\<close>

text \<open>
  The predicate of the address filter:
  \<^verbatim>\<open>tokenAddresses.some((addr) => opp.token_address?.toLowerCase() === addr.toLowerCase())\<close>.
  With \<^verbatim>\<open>token_address\<close> absent the left side is \<^verbatim>\<open>undefined\<close>, which is never
  \<^verbatim>\<open>===\<close> to a string.
\<close>

definition address_listed :: "string list \<Rightarrow> ArbitrageOpportunity \<Rightarrow> bool" where
  "address_listed tokenAddresses opp =
     list_ex (\<lambda>addr. map_option toLowerCase (token_address opp) = Some (toLowerCase addr))
       tokenAddresses"

text \<open>
  \<^verbatim>\<open>findArbitrage(chainId, minProfitPct, tokenAddresses?)\<close>. The optional parameter is an
  \<open>option\<close>; the guard \<^verbatim>\<open>tokenAddresses && tokenAddresses.length > 0\<close> skips the second
  filter for \<^verbatim>\<open>undefined\<close> and for the empty array. The function has no failing path.
\<close>

definition findArbitrage ::
  "number \<Rightarrow> number \<Rightarrow> string list option \<Rightarrow> ArbitrageOpportunity list" where
  "findArbitrage chainId minProfitPct tokenAddresses =
     (let opportunities =
            filter (\<lambda>opp. profit_percentage opp \<ge> minProfitPct)
              (mockOpportunities (gasCost chainId))
      in case tokenAddresses of
           None \<Rightarrow> opportunities
         | Some addrs \<Rightarrow>
             if length addrs > 0 then filter (address_listed addrs) opportunities
             else opportunities)"

text \<open>
  The two filters of \<^verbatim>\<open>findArbitrage\<close> (source lines 136 to 150) over any list of
  candidates, to reason about candidates the built-in list does not contain (one with
  no \<^verbatim>\<open>token_address\<close>).
\<close>

definition filterOpportunities ::
  "ArbitrageOpportunity list \<Rightarrow> number \<Rightarrow> string list option \<Rightarrow> ArbitrageOpportunity list" where
  "filterOpportunities candidates minProfitPct tokenAddresses =
     (let opportunities = filter (\<lambda>opp. profit_percentage opp \<ge> minProfitPct) candidates
      in case tokenAddresses of
           None \<Rightarrow> opportunities
         | Some addrs \<Rightarrow>
             if length addrs > 0 then filter (address_listed addrs) opportunities
             else opportunities)"

section \<open>Validation and the two handlers\<close>

text \<open>
  The schema library is not part of the repository. Its documented behaviour, as far as
  \<^verbatim>\<open>ArbitrageInputSchema\<close> uses it: \<^verbatim>\<open>z.number()\<close> accepts a number, \<^verbatim>\<open>z.string()\<close> a
  string, \<^verbatim>\<open>z.array(e)\<close> an array whose elements \<^verbatim>\<open>e\<close> accepts, \<^verbatim>\<open>.optional()\<close> also
  \<^verbatim>\<open>undefined\<close> (a missing key, not \<^verbatim>\<open>null\<close>), and \<^verbatim>\<open>z.object({...})\<close> an object
  whose listed keys are accepted; keys the schema does not list are dropped from the
  result and never looked at.
\<close>

fun z_number :: "json option \<Rightarrow> number option" where
  "z_number (Some (JNum n)) = Some n"
| "z_number _ = None"

fun z_string :: "json \<Rightarrow> string option" where
  "z_string (JStr s) = Some s"
| "z_string _ = None"

fun z_optional_string_array :: "json option \<Rightarrow> string list option option" where
  "z_optional_string_array None = Some None"
| "z_optional_string_array (Some (JArr xs)) = map_option Some (those (map z_string xs))"
| "z_optional_string_array (Some _) = None"

text \<open>
  \<^verbatim>\<open>ArbitrageInputSchema.parse(input)\<close>, with the fields in the order of the schema:
  \<^verbatim>\<open>chain_id: z.number()\<close>, \<^verbatim>\<open>min_profit_pct: z.number()\<close>,
  \<^verbatim>\<open>token_addresses: z.array(z.string()).optional()\<close>.
\<close>

definition ArbitrageInputSchema_parse :: "json \<Rightarrow> thrown + ArbitrageInput" where
  "ArbitrageInputSchema_parse input =
     (case input of
        JObj props \<Rightarrow>
          (case (z_number (map_of props ''chain_id''),
                 z_number (map_of props ''min_profit_pct''),
                 z_optional_string_array (map_of props ''token_addresses'')) of
             (Some c, Some m, Some t) \<Rightarrow>
               Inr \<lparr>chain_id = c, min_profit_pct = m, token_addresses = t\<rparr>
           | (c, m, t) \<Rightarrow>
               Inl (ZodError
                 ((if c = None then [''chain_id''] else []) @
                  (if m = None then [''min_profit_pct''] else []) @
                  (if t = None then [''token_addresses''] else []))))
      | _ \<Rightarrow> Inl (ZodError [[]]))"

text \<open>
  The \<^verbatim>\<open>handler\<close> of the paid entrypoint (\<^verbatim>\<open>addEntrypoint\<close>), given the validated input.
  \<open>now\<close> is what \<^verbatim>\<open>new Date().toISOString()\<close> returns at the call.
\<close>

definition handler :: "string \<Rightarrow> ArbitrageInput \<Rightarrow> ArbitrageOutput" where
  "handler now input =
     (let opps = findArbitrage (chain_id input) (min_profit_pct input) (token_addresses input)
      in \<lparr>opportunities = opps, total_found = length opps, timestamp = now\<rparr>)"

text \<open>
  The route \<^verbatim>\<open>POST /api/internal/cross-dex-arbitrage\<close>. \<open>expectedKey\<close> is
  \<^verbatim>\<open>process.env.INTERNAL_API_KEY\<close> (\<^verbatim>\<open>!expectedKey\<close> holds for \<^verbatim>\<open>undefined\<close> and for the
  empty string). Beside the response, the model returns the calls of \<^verbatim>\<open>findArbitrage\<close>
  the route made, as the triples of their arguments: these calls are all the work the
  route does for a request.
\<close>

type_synonym detection_call = "number \<times> number \<times> string list option"

definition internalApi ::
  "string option \<Rightarrow> string \<Rightarrow> InternalRequest \<Rightarrow> response \<times> detection_call list" where
  "internalApi expectedKey now req =
     (if expectedKey = None \<or> expectedKey = Some [] then
        (JsonError 500 ServerConfigurationError, [])
      else if api_key_header req \<noteq> expectedKey then
        (JsonError 401 Unauthorized, [])
      else
        (case json_body req of
           None \<Rightarrow> (JsonError 500 (Thrown SyntaxError), [])
         | Some input \<Rightarrow>
             (case ArbitrageInputSchema_parse input of
                Inl e \<Rightarrow> (JsonError 500 (Thrown e), [])
              | Inr validatedInput \<Rightarrow>
                  (let opps = findArbitrage (chain_id validatedInput)
                                (min_profit_pct validatedInput) (token_addresses validatedInput)
                   in (Json200 \<lparr>opportunities = opps, total_found = length opps,
                                timestamp = now\<rparr>,
                       [(chain_id validatedInput, min_profit_pct validatedInput,
                         token_addresses validatedInput)])))))"

section \<open>The specification's profit formula and ordering\<close>

text \<open>
  The specification's fee of one DEX hop: the route's fee in basis points of the
  notional (\<open>30\<close> bps of \<open>1000\<close> USD is \<open>3\<close> USD). The source has no counterpart; this
  definition and the next follow the specification's words, to compare the code with.
\<close>

definition spec_dex_fee_usd :: "number \<Rightarrow> number \<Rightarrow> number" where
  "spec_dex_fee_usd notional fee_bps = notional * fee_bps / 10000"

definition spec_profit_usd :: "number \<Rightarrow> number \<Rightarrow> number \<Rightarrow> number" where
  "spec_profit_usd gross gas fee = gross - gas - fee"

text \<open>
  A bound on what rounding moves the result of the source's one subtraction
  (\<^verbatim>\<open>4.0 - gasCost\<close>, \<^verbatim>\<open>4.9 - gasCost\<close>, \<^verbatim>\<open>2.0 - gasCost\<close>) away from the exact
  difference of the decimal literals: the operands are at most 5 in absolute value,
  where neighbouring doubles are less than \<^verbatim>\<open>1e-15\<close> apart, so a billionth is generous by
  six orders of magnitude.
\<close>

definition rounding_tolerance :: number where
  "rounding_tolerance = 1 / 10 ^ 9"

text \<open>A list of opportunities in non-increasing order of net profit.\<close>

definition net_profit_descending :: "ArbitrageOpportunity list \<Rightarrow> bool" where
  "net_profit_descending opps = sorted_wrt (\<lambda>x y. x \<ge> y) (map net_profit_usd opps)"

section \<open>Basic facts\<close>

lemma findArbitrage_filterOpportunities:
  "findArbitrage chainId minProfitPct tokenAddresses =
     filterOpportunities (mockOpportunities (gasCost chainId)) minProfitPct tokenAddresses"
  by (simp add: findArbitrage_def filterOpportunities_def)

lemma filterOpportunities_subset:
  "set (filterOpportunities cands m t) \<subseteq> set cands"
  by (auto simp: filterOpportunities_def Let_def split: option.splits)

lemma findArbitrage_subset:
  "set (findArbitrage c m t) \<subseteq> set (mockOpportunities (gasCost c))"
  by (simp add: findArbitrage_filterOpportunities filterOpportunities_subset)

lemma gasCost_cases:
  "gasCost c = (if c = 1 then 5 else if c = 8453 then 1 / 100 else if c = 42161 then 15 / 100
     else if c = 10 then 5 / 100 else if c = 137 then 2 / 100 else if c = 56 then 8 / 100
     else 5 / 2)"
  by (simp add: gasCost_def CHAIN_GAS_COSTS_def or_default_def)

lemma gasCost_pos: "0 < gasCost c"
  by (simp add: gasCost_cases)

lemma mock_gas: "opp \<in> set (mockOpportunities g) \<Longrightarrow> gas_cost_usd opp = g"
  by (auto simp: mockOpportunities_def)

lemma mock_net:
  "opp \<in> set (mockOpportunities g) \<Longrightarrow> net_profit_usd opp = profit_usd_per_1k opp - g"
  by (auto simp: mockOpportunities_def)

lemma findArbitrage_is_filter:
  "\<exists>P. findArbitrage c m t = filter P (mockOpportunities (gasCost c))"
proof (cases t)
  case None
  then show ?thesis
    by (auto simp: findArbitrage_def)
next
  case (Some addrs)
  show ?thesis
  proof (cases "addrs = []")
    case True
    with Some show ?thesis
      by (auto simp: findArbitrage_def)
  next
    case False
    with Some have "findArbitrage c m t =
        filter (\<lambda>opp. m \<le> profit_percentage opp \<and> address_listed addrs opp)
          (mockOpportunities (gasCost c))"
      by (simp add: findArbitrage_def)
    then show ?thesis by blast
  qed
qed

lemma filter_mock_descending:
  "net_profit_descending (filter P (mockOpportunities g)) \<longleftrightarrow>
     \<not> (''USDC'' \<in> set (map token_symbol (filter P (mockOpportunities g))) \<and>
        ''WETH'' \<in> set (map token_symbol (filter P (mockOpportunities g))))"
  by (simp add: net_profit_descending_def mockOpportunities_def)

lemma filterOpportunities_profit:
  "opp \<in> set (filterOpportunities cands m t) \<Longrightarrow> m \<le> profit_percentage opp"
  by (auto simp: filterOpportunities_def Let_def split: option.splits if_splits)

lemma filterOpportunities_listed:
  "opp \<in> set (filterOpportunities cands m (Some addrs)) \<Longrightarrow> addrs \<noteq> [] \<Longrightarrow>
     address_listed addrs opp"
  by (auto simp: filterOpportunities_def Let_def)

lemma address_listed_iff:
  "address_listed addrs opp \<longleftrightarrow>
     (\<exists>a \<in> set addrs. \<exists>tok. token_address opp = Some tok \<and> toLowerCase tok = toLowerCase a)"
  by (auto simp: address_listed_def list_ex_iff)

lemma parse_ignores_amount_in:
  "ArbitrageInputSchema_parse (JObj ((''amount_in'', v) # props)) =
     ArbitrageInputSchema_parse (JObj props)"
  by (simp add: ArbitrageInputSchema_parse_def)

lemma z_number_Some_iff: "z_number x = Some n \<longleftrightarrow> x = Some (JNum n)"
  by (cases x rule: z_number.cases) auto

lemma parse_Inr_iff:
  "ArbitrageInputSchema_parse (JObj props) = Inr inp \<longleftrightarrow>
     map_of props ''chain_id'' = Some (JNum (chain_id inp)) \<and>
     map_of props ''min_profit_pct'' = Some (JNum (min_profit_pct inp)) \<and>
     z_optional_string_array (map_of props ''token_addresses'') = Some (token_addresses inp)"
  by (cases inp)
    (auto simp: ArbitrageInputSchema_parse_def z_number_Some_iff split: option.splits)

section \<open>Net profit against gross profit\<close>

text \<open>
  C8: in every result of \<open>findArbitrage\<close>, each opportunity's net profit
  (\<open>net_profit_usd\<close>) is at most its gross profit (\<open>profit_usd_per_1k\<close>): the gas cost that
  is subtracted is positive for every chain.
\<close>

theorem C8_net_le_gross:
  "\<forall>opp \<in> set (findArbitrage chainId minProfitPct tokenAddresses).
     net_profit_usd opp \<le> profit_usd_per_1k opp"
proof
  fix opp
  assume "opp \<in> set (findArbitrage chainId minProfitPct tokenAddresses)"
  then have m: "opp \<in> set (mockOpportunities (gasCost chainId))"
    using findArbitrage_subset by blast
  have "net_profit_usd opp = profit_usd_per_1k opp - gasCost chainId"
    using m by (rule mock_net)
  moreover have "0 < gasCost chainId"
    by (rule gasCost_pos)
  ultimately show "net_profit_usd opp \<le> profit_usd_per_1k opp"
    by simp
qed

theorem C8_net_le_gross_witness:
  "map net_profit_usd (findArbitrage 1 0 None) = [- 1, - 1 / 10, - 3] \<and>
   map profit_usd_per_1k (findArbitrage 1 0 None) = [4, 49 / 10, 2] \<and>
   list_all (\<lambda>opp. net_profit_usd opp \<le> profit_usd_per_1k opp) (findArbitrage 1 0 None)"
proof -
  have "map net_profit_usd (findArbitrage 1 0 None) = [- 1, - 1 / 10, - 3]"
    by code_simp
  moreover have "map profit_usd_per_1k (findArbitrage 1 0 None) = [4, 49 / 10, 2]"
    by code_simp
  moreover have
    "list_all (\<lambda>opp. net_profit_usd opp \<le> profit_usd_per_1k opp) (findArbitrage 1 0 None)"
    using C8_net_le_gross [of 1 0 None] by (simp add: list_all_iff)
  ultimately show ?thesis by blast
qed

section \<open>The profit formula\<close>

text \<open>
  C1, as amended: for every opportunity of every result of \<open>findArbitrage\<close>, the net
  profit is the gross profit per 1000 USD minus the gas cost in USD, both on the same
  1000 USD basis, up to the rounding of that one subtraction (\<open>rounding_tolerance\<close>, a
  billionth of a dollar), and no fee is subtracted: for every fee above that tolerance
  the reported net profit is strictly more than the specification's
  \<open>gross - gas - fee\<close>.
\<close>

theorem C1_net_profit_subtracts_gas_only:
  "\<forall>opp \<in> set (findArbitrage chainId minProfitPct tokenAddresses).
     \<bar>net_profit_usd opp - (profit_usd_per_1k opp - gas_cost_usd opp)\<bar> \<le> rounding_tolerance \<and>
     (\<forall>fee. rounding_tolerance < fee \<longrightarrow>
        spec_profit_usd (profit_usd_per_1k opp) (gas_cost_usd opp) fee < net_profit_usd opp)"
proof
  fix opp
  assume "opp \<in> set (findArbitrage chainId minProfitPct tokenAddresses)"
  then have m: "opp \<in> set (mockOpportunities (gasCost chainId))"
    using findArbitrage_subset by blast
  have n: "net_profit_usd opp = profit_usd_per_1k opp - gasCost chainId"
    using m by (rule mock_net)
  have g: "gas_cost_usd opp = gasCost chainId"
    using m by (rule mock_gas)
  have "\<bar>net_profit_usd opp - (profit_usd_per_1k opp - gas_cost_usd opp)\<bar> \<le> rounding_tolerance"
    using n g by (simp add: rounding_tolerance_def)
  moreover have "\<forall>fee. rounding_tolerance < fee \<longrightarrow>
        spec_profit_usd (profit_usd_per_1k opp) (gas_cost_usd opp) fee < net_profit_usd opp"
    using n g by (simp add: rounding_tolerance_def spec_profit_usd_def)
  ultimately show
    "\<bar>net_profit_usd opp - (profit_usd_per_1k opp - gas_cost_usd opp)\<bar> \<le> rounding_tolerance \<and>
     (\<forall>fee. rounding_tolerance < fee \<longrightarrow>
        spec_profit_usd (profit_usd_per_1k opp) (gas_cost_usd opp) fee < net_profit_usd opp)"
    by blast
qed

theorem C1_net_profit_subtracts_gas_only_witness:
  "map (\<lambda>opp. (token_symbol opp, profit_usd_per_1k opp, gas_cost_usd opp))
     (findArbitrage 8453 0 None) =
     [(''USDC'', 4, 1 / 100), (''WETH'', 49 / 10, 1 / 100), (''USDT'', 2, 1 / 100)] \<and>
   list_all
     (\<lambda>opp. \<bar>net_profit_usd opp - (profit_usd_per_1k opp - gas_cost_usd opp)\<bar>
               \<le> rounding_tolerance \<and>
            spec_profit_usd (profit_usd_per_1k opp) (gas_cost_usd opp)
               (spec_dex_fee_usd 1000 30) < net_profit_usd opp)
     (findArbitrage 8453 0 None)"
proof -
  have a: "map (\<lambda>opp. (token_symbol opp, profit_usd_per_1k opp, gas_cost_usd opp))
      (findArbitrage 8453 0 None) =
      [(''USDC'', 4, 1 / 100), (''WETH'', 49 / 10, 1 / 100), (''USDT'', 2, 1 / 100)]"
    by code_simp
  have f: "rounding_tolerance < spec_dex_fee_usd 1000 30"
    by (simp add: rounding_tolerance_def spec_dex_fee_usd_def)
  have "list_all
     (\<lambda>opp. \<bar>net_profit_usd opp - (profit_usd_per_1k opp - gas_cost_usd opp)\<bar>
               \<le> rounding_tolerance \<and>
            spec_profit_usd (profit_usd_per_1k opp) (gas_cost_usd opp)
               (spec_dex_fee_usd 1000 30) < net_profit_usd opp)
     (findArbitrage 8453 0 None)"
    using C1_net_profit_subtracts_gas_only [of 8453 0 None] f
    unfolding list_all_iff by blast
  with a show ?thesis by blast
qed

text \<open>
  C1 as stated fails: on Base (chain 8453, gas cost 0.01 USD) the reported net profits
  are 3.99, 4.89 (in the source's doubles 4.890000000000001) and 1.99 USD, so the fee
  of 30 basis points of the 1000 USD notional (3 USD) is not subtracted from any of
  them.
\<close>

theorem C1_fee_not_subtracted_counterexample:
  "\<not> (\<forall>opp \<in> set (findArbitrage 8453 0 None).
        net_profit_usd opp =
          spec_profit_usd (profit_usd_per_1k opp) (gas_cost_usd opp) (spec_dex_fee_usd 1000 30))"
proof -
  have "list_all (\<lambda>opp. net_profit_usd opp \<noteq>
          spec_profit_usd (profit_usd_per_1k opp) (gas_cost_usd opp) (spec_dex_fee_usd 1000 30))
        (findArbitrage 8453 0 None)"
    by code_simp
  moreover have "findArbitrage 8453 0 None \<noteq> []"
    by code_simp
  ultimately show ?thesis
    by (cases "findArbitrage 8453 0 None") (auto simp: list_all_iff)
qed

section \<open>Order of the result\<close>

text \<open>
  C2, as amended: the result of \<open>findArbitrage\<close> keeps the order of the built-in
  candidate list (USDC, WETH, USDT), of which it is a subsequence; nothing sorts it and
  no best route is singled out. It is in non-increasing order of net profit exactly when
  it does not hold both the USDC and the WETH opportunity.
\<close>

theorem C2_source_order_kept:
  "subseq (findArbitrage chainId minProfitPct tokenAddresses)
     (mockOpportunities (gasCost chainId)) \<and>
   (net_profit_descending (findArbitrage chainId minProfitPct tokenAddresses) \<longleftrightarrow>
      \<not> (''USDC'' \<in> set (map token_symbol
                 (findArbitrage chainId minProfitPct tokenAddresses)) \<and>
         ''WETH'' \<in> set (map token_symbol
                 (findArbitrage chainId minProfitPct tokenAddresses))))"
proof -
  obtain P where P: "findArbitrage chainId minProfitPct tokenAddresses =
      filter P (mockOpportunities (gasCost chainId))"
    using findArbitrage_is_filter by blast
  have "subseq (filter P (mockOpportunities (gasCost chainId)))
      (mockOpportunities (gasCost chainId))"
    by simp
  then show ?thesis
    unfolding P using filter_mock_descending [of P "gasCost chainId"] by blast
qed

theorem C2_source_order_kept_witness:
  "map token_symbol (findArbitrage 8453 (1 / 2) None) = [] \<and>
   map token_symbol (findArbitrage 8453 (3 / 10) None) = [''USDC'', ''WETH''] \<and>
   net_profit_descending (findArbitrage 8453 (1 / 2) None) \<and>
   \<not> net_profit_descending (findArbitrage 8453 (3 / 10) None)"
proof -
  have a: "map token_symbol (findArbitrage 8453 (1 / 2) None) = []"
    by code_simp
  have b: "map token_symbol (findArbitrage 8453 (3 / 10) None) = [''USDC'', ''WETH'']"
    by code_simp
  have "net_profit_descending (findArbitrage 8453 (1 / 2) None)"
    using C2_source_order_kept [of 8453 "1 / 2" None] a by simp
  moreover have "\<not> net_profit_descending (findArbitrage 8453 (3 / 10) None)"
    using C2_source_order_kept [of 8453 "3 / 10" None] b by simp
  ultimately show ?thesis using a b by blast
qed

text \<open>
  C2 as stated fails: on Base with no threshold and no address filter the net profits
  come back as 3.99, 4.89, 1.99, and the head is not the most profitable opportunity.
\<close>

theorem C2_not_sorted_counterexample:
  "map net_profit_usd (findArbitrage 8453 0 None) = [399 / 100, 489 / 100, 199 / 100] \<and>
   \<not> net_profit_descending (findArbitrage 8453 0 None)"
proof -
  have e: "map net_profit_usd (findArbitrage 8453 0 None) = [399 / 100, 489 / 100, 199 / 100]"
    by code_simp
  then show ?thesis
    by (simp add: net_profit_descending_def)
qed

section \<open>The scenario of the specification\<close>

text \<open>
  C3, as amended: for the scenario buy price 0.998, sell price 1.002 on the chain whose
  gas cost is 0.01 USD (Base, 8453), the reported gross spread is 0.4 percent, that is
  40 basis points, the gross profit is 4.00 USD per 1000 USD, and the net profit is
  3.99 USD (4.00 minus 0.01 of gas, with no fee subtracted); the opportunity is marked
  executable.
\<close>

theorem C3_scenario_on_base:
  "\<forall>opp \<in> set (findArbitrage 8453 minProfitPct tokenAddresses).
     buy_price opp = 998 / 1000 \<and> sell_price opp = 1002 / 1000 \<longrightarrow>
       profit_percentage opp * 100 = 40 \<and> profit_usd_per_1k opp = 4 \<and>
       gas_cost_usd opp = 1 / 100 \<and> net_profit_usd opp = 399 / 100 \<and> executable opp"
proof
  fix opp
  assume "opp \<in> set (findArbitrage 8453 minProfitPct tokenAddresses)"
  then have "opp \<in> set (mockOpportunities (gasCost 8453))"
    using findArbitrage_subset by blast
  moreover have "gasCost 8453 = 1 / 100"
    by (simp add: gasCost_cases)
  ultimately have "opp \<in> set (mockOpportunities (1 / 100))"
    by simp
  then show "buy_price opp = 998 / 1000 \<and> sell_price opp = 1002 / 1000 \<longrightarrow>
       profit_percentage opp * 100 = 40 \<and> profit_usd_per_1k opp = 4 \<and>
       gas_cost_usd opp = 1 / 100 \<and> net_profit_usd opp = 399 / 100 \<and> executable opp"
    by (auto simp: mockOpportunities_def)
qed

theorem C3_scenario_on_base_witness:
  "list_ex (\<lambda>opp. buy_price opp = 998 / 1000 \<and> sell_price opp = 1002 / 1000 \<and>
      profit_percentage opp * 100 = 40 \<and> profit_usd_per_1k opp = 4 \<and>
      gas_cost_usd opp = 1 / 100 \<and> net_profit_usd opp = 399 / 100 \<and> executable opp)
     (findArbitrage 8453 0 None)"
proof -
  have "list_ex (\<lambda>opp. buy_price opp = 998 / 1000 \<and> sell_price opp = 1002 / 1000)
      (findArbitrage 8453 0 None)"
    by code_simp
  then obtain opp where "opp \<in> set (findArbitrage 8453 0 None)"
    and "buy_price opp = 998 / 1000 \<and> sell_price opp = 1002 / 1000"
    by (auto simp: list_ex_iff)
  then show ?thesis
    using C3_scenario_on_base [of 0 None] unfolding list_ex_iff by blast
qed

text \<open>
  C3 as stated fails: the scenario's opportunity comes back with a net profit of 3.99
  USD, which is not within one dollar of the 0.99 USD of the specification.
\<close>

theorem C3_net_profit_counterexample:
  "map net_profit_usd
     (filter (\<lambda>opp. buy_price opp = 998 / 1000 \<and> sell_price opp = 1002 / 1000)
        (findArbitrage 8453 0 None)) = [399 / 100] \<and>
   \<not> (\<forall>opp \<in> set (findArbitrage 8453 0 None).
        buy_price opp = 998 / 1000 \<and> sell_price opp = 1002 / 1000 \<longrightarrow>
          \<bar>net_profit_usd opp - 99 / 100\<bar> \<le> 1)"
proof -
  have a: "map net_profit_usd
     (filter (\<lambda>opp. buy_price opp = 998 / 1000 \<and> sell_price opp = 1002 / 1000)
        (findArbitrage 8453 0 None)) = [399 / 100]"
    by code_simp
  have "list_ex (\<lambda>opp. buy_price opp = 998 / 1000 \<and> sell_price opp = 1002 / 1000 \<and>
      \<not> \<bar>net_profit_usd opp - 99 / 100\<bar> \<le> 1) (findArbitrage 8453 0 None)"
    by code_simp
  then have "\<not> (\<forall>opp \<in> set (findArbitrage 8453 0 None).
        buy_price opp = 998 / 1000 \<and> sell_price opp = 1002 / 1000 \<longrightarrow>
          \<bar>net_profit_usd opp - 99 / 100\<bar> \<le> 1)"
    unfolding list_ex_iff by blast
  with a show ?thesis by blast
qed

section \<open>The internal route\<close>

lemma internalApi_accepts:
  assumes "k \<noteq> []" "api_key_header req = Some k" "json_body req = Some body"
    "ArbitrageInputSchema_parse body = Inr inp"
  shows "internalApi (Some k) now req =
    (Json200 \<lparr>opportunities =
         findArbitrage (chain_id inp) (min_profit_pct inp) (token_addresses inp),
       total_found =
         length (findArbitrage (chain_id inp) (min_profit_pct inp) (token_addresses inp)),
       timestamp = now\<rparr>,
     [(chain_id inp, min_profit_pct inp, token_addresses inp)])"
  using assms by (simp add: internalApi_def Let_def)

lemma internalApi_error_no_call:
  "fst (internalApi expectedKey now req) = JsonError st e \<Longrightarrow>
     snd (internalApi expectedKey now req) = []"
  by (auto simp: internalApi_def Let_def split: if_splits option.splits sum.splits)

section \<open>What validation reads\<close>

lemma internalApi_rejects:
  "ArbitrageInputSchema_parse body = Inl e \<Longrightarrow>
     snd (internalApi expectedKey now (req\<lparr>json_body := Some body\<rparr>)) = [] \<and>
     (\<exists>st err. fst (internalApi expectedKey now (req\<lparr>json_body := Some body\<rparr>)) =
        JsonError st err)"
  by (simp add: internalApi_def)

text \<open>
  C5, as amended: validation never looks at \<^verbatim>\<open>amount_in\<close>, which is not a field of the
  schema: a request is answered the same with any \<^verbatim>\<open>amount_in\<close> (zero included) as
  without one. What validation does reject (a body in which \<^verbatim>\<open>chain_id\<close> or
  \<^verbatim>\<open>min_profit_pct\<close> is not a number, or \<^verbatim>\<open>token_addresses\<close> is present and not an array
  of strings) is answered with an error before \<open>findArbitrage\<close> is called.
\<close>

theorem C5_amount_in_is_not_validated:
  "internalApi expectedKey now (req\<lparr>json_body := Some (JObj ((''amount_in'', v) # props))\<rparr>) =
     internalApi expectedKey now (req\<lparr>json_body := Some (JObj props)\<rparr>) \<and>
   (\<forall>body e. ArbitrageInputSchema_parse body = Inl e \<longrightarrow>
      snd (internalApi expectedKey now (req\<lparr>json_body := Some body\<rparr>)) = [] \<and>
      (\<exists>st err. fst (internalApi expectedKey now (req\<lparr>json_body := Some body\<rparr>)) =
         JsonError st err))"
proof (intro conjI allI impI)
  show "internalApi expectedKey now
      (req\<lparr>json_body := Some (JObj ((''amount_in'', v) # props))\<rparr>) =
     internalApi expectedKey now (req\<lparr>json_body := Some (JObj props)\<rparr>)"
    by (simp add: internalApi_def parse_ignores_amount_in)
next
  fix body e
  assume "ArbitrageInputSchema_parse body = Inl e"
  then show "snd (internalApi expectedKey now (req\<lparr>json_body := Some body\<rparr>)) = []"
    using internalApi_rejects by blast
next
  fix body e
  assume "ArbitrageInputSchema_parse body = Inl e"
  then show "\<exists>st err. fst (internalApi expectedKey now (req\<lparr>json_body := Some body\<rparr>)) =
         JsonError st err"
    using internalApi_rejects by blast
qed

theorem C5_amount_in_is_not_validated_witness:
  "internalApi (Some ''secret'') ''2025-10-31T12:00:00.000Z''
      \<lparr>api_key_header = Some ''secret'',
       json_body = Some (JObj [(''amount_in'', JNum 0), (''chain_id'', JNum 1),
                               (''min_profit_pct'', JNum (45 / 100))])\<rparr> =
    internalApi (Some ''secret'') ''2025-10-31T12:00:00.000Z''
      \<lparr>api_key_header = Some ''secret'',
       json_body = Some (JObj [(''chain_id'', JNum 1),
                               (''min_profit_pct'', JNum (45 / 100))])\<rparr> \<and>
   snd (internalApi (Some ''secret'') ''2025-10-31T12:00:00.000Z''
      \<lparr>api_key_header = Some ''secret'',
       json_body = Some (JObj [(''amount_in'', JNum 0)])\<rparr>) = []"
proof -
  have r: "ArbitrageInputSchema_parse (JObj [(''amount_in'', JNum 0)]) =
      Inl (ZodError [''chain_id'', ''min_profit_pct''])"
    by code_simp
  show ?thesis
    using C5_amount_in_is_not_validated
      [where expectedKey = "Some ''secret''" and now = "''2025-10-31T12:00:00.000Z''"
        and req = "\<lparr>api_key_header = Some ''secret'', json_body = None\<rparr>"
        and v = "JNum 0"
        and props = "[(''chain_id'', JNum 1), (''min_profit_pct'', JNum (45 / 100))]"] r
    by simp
qed

text \<open>
  C5 as stated fails: a request with \<^verbatim>\<open>amount_in = 0\<close> and the two numbers the schema
  asks for passes validation, and \<open>findArbitrage\<close> is called for it.
\<close>

theorem C5_amount_in_zero_counterexample:
  "internalApi (Some ''secret'') ''2025-10-31T12:00:00.000Z''
      \<lparr>api_key_header = Some ''secret'',
       json_body = Some (JObj [(''chain_id'', JNum 8453), (''min_profit_pct'', JNum (3 / 10)),
                               (''amount_in'', JNum 0)])\<rparr> =
     (Json200 \<lparr>opportunities = findArbitrage 8453 (3 / 10) None, total_found = 2,
               timestamp = ''2025-10-31T12:00:00.000Z''\<rparr>,
      [(8453, 3 / 10, None)])"
  by code_simp

section \<open>The request shape\<close>

text \<open>
  C6, as amended: the entry point consumes the request shape \<^verbatim>\<open>{chain_id: number,
  min_profit_pct: number, token_addresses?: string[]}\<close>. A request object is accepted
  exactly when \<^verbatim>\<open>chain_id\<close> and \<^verbatim>\<open>min_profit_pct\<close> are numbers and \<^verbatim>\<open>token_addresses\<close> is
  absent or an array of strings; the three fields are then the three arguments of the one
  call of \<open>findArbitrage\<close>, whose result is the response. The fields \<^verbatim>\<open>token_in\<close>,
  \<^verbatim>\<open>token_out\<close>, \<^verbatim>\<open>amount_in\<close> and \<^verbatim>\<open>chain_ids\<close> are not read.
\<close>

theorem C6_request_shape:
  "(ArbitrageInputSchema_parse (JObj props) = Inr inp \<longleftrightarrow>
      map_of props ''chain_id'' = Some (JNum (chain_id inp)) \<and>
      map_of props ''min_profit_pct'' = Some (JNum (min_profit_pct inp)) \<and>
      z_optional_string_array (map_of props ''token_addresses'') = Some (token_addresses inp)) \<and>
   (\<forall>k req. k \<noteq> [] \<and> api_key_header req = Some k \<and> json_body req = Some (JObj props) \<and>
        ArbitrageInputSchema_parse (JObj props) = Inr inp \<longrightarrow>
      internalApi (Some k) now req =
        (Json200 (handler now inp),
         [(chain_id inp, min_profit_pct inp, token_addresses inp)])) \<and>
   handler now inp =
     \<lparr>opportunities =
        findArbitrage (chain_id inp) (min_profit_pct inp) (token_addresses inp),
      total_found =
        length (findArbitrage (chain_id inp) (min_profit_pct inp) (token_addresses inp)),
      timestamp = now\<rparr>"
proof (intro conjI allI impI)
  show "ArbitrageInputSchema_parse (JObj props) = Inr inp \<longleftrightarrow>
      map_of props ''chain_id'' = Some (JNum (chain_id inp)) \<and>
      map_of props ''min_profit_pct'' = Some (JNum (min_profit_pct inp)) \<and>
      z_optional_string_array (map_of props ''token_addresses'') = Some (token_addresses inp)"
    by (rule parse_Inr_iff)
next
  show h: "handler now inp =
     \<lparr>opportunities =
        findArbitrage (chain_id inp) (min_profit_pct inp) (token_addresses inp),
      total_found =
        length (findArbitrage (chain_id inp) (min_profit_pct inp) (token_addresses inp)),
      timestamp = now\<rparr>"
    by (simp add: handler_def Let_def)
  fix k :: string and req :: InternalRequest
  assume "k \<noteq> [] \<and> api_key_header req = Some k \<and> json_body req = Some (JObj props) \<and>
        ArbitrageInputSchema_parse (JObj props) = Inr inp"
  then show "internalApi (Some k) now req =
        (Json200 (handler now inp),
         [(chain_id inp, min_profit_pct inp, token_addresses inp)])"
    by (simp add: h internalApi_accepts [of k req "JObj props" inp now])
qed

theorem C6_request_shape_witness:
  "internalApi (Some ''secret'') ''2025-10-31T12:00:00.000Z''
      \<lparr>api_key_header = Some ''secret'',
       json_body = Some (JObj [(''chain_id'', JNum 137), (''min_profit_pct'', JNum (1 / 4)),
          (''token_addresses'', JArr [JStr ''0xc02aaa39b223fe8d0a0e5c4f27ead9083c756cc2''])])\<rparr> =
     (Json200 (handler ''2025-10-31T12:00:00.000Z''
         \<lparr>chain_id = 137, min_profit_pct = 1 / 4,
          token_addresses = Some [''0xc02aaa39b223fe8d0a0e5c4f27ead9083c756cc2'']\<rparr>),
      [(137, 1 / 4, Some [''0xc02aaa39b223fe8d0a0e5c4f27ead9083c756cc2''])])"
proof -
  have p: "ArbitrageInputSchema_parse
      (JObj [(''chain_id'', JNum 137), (''min_profit_pct'', JNum (1 / 4)),
          (''token_addresses'', JArr [JStr ''0xc02aaa39b223fe8d0a0e5c4f27ead9083c756cc2''])]) =
      Inr \<lparr>chain_id = 137, min_profit_pct = 1 / 4,
          token_addresses = Some [''0xc02aaa39b223fe8d0a0e5c4f27ead9083c756cc2'']\<rparr>"
    by code_simp
  show ?thesis
    using C6_request_shape
      [of "[(''chain_id'', JNum 137), (''min_profit_pct'', JNum (1 / 4)),
          (''token_addresses'', JArr [JStr ''0xc02aaa39b223fe8d0a0e5c4f27ead9083c756cc2''])]"
        "\<lparr>chain_id = 137, min_profit_pct = 1 / 4,
          token_addresses = Some [''0xc02aaa39b223fe8d0a0e5c4f27ead9083c756cc2'']\<rparr>"
        "''2025-10-31T12:00:00.000Z''"] p
    by simp
qed

text \<open>
  C6 as stated fails: a request that supplies the four fields \<^verbatim>\<open>token_in\<close>, \<^verbatim>\<open>token_out\<close>,
  \<^verbatim>\<open>amount_in\<close>, \<^verbatim>\<open>chain_ids\<close> is rejected by validation (both required fields are
  missing) and \<open>findArbitrage\<close> is not called.
\<close>

theorem C6_spec_shape_rejected_counterexample:
  "internalApi (Some ''secret'') ''2025-10-31T12:00:00.000Z''
      \<lparr>api_key_header = Some ''secret'',
       json_body = Some (JObj [(''token_in'', JStr ''USDC''), (''token_out'', JStr ''USDT''),
          (''amount_in'', JStr ''1000''), (''chain_ids'', JArr [JNum 137, JNum 8453])])\<rparr> =
     (JsonError 500 (Thrown (ZodError [''chain_id'', ''min_profit_pct''])), [])"
  by code_simp

section \<open>Running the detection twice\<close>

text \<open>
  C7: the detection reads nothing but its three arguments, so two runs on the same
  \<^verbatim>\<open>chain_id\<close>, \<^verbatim>\<open>min_profit_pct\<close> and \<^verbatim>\<open>token_addresses\<close> give the same opportunities in
  the same order with the same fields, and the same \<open>total_found\<close>, whatever the clock
  reads at each run; only the \<open>timestamp\<close> of the two reports follows the clock. The
  same holds for the responses of the internal route.
\<close>

theorem C7_rerun_same_report:
  "opportunities (handler now1 inp) = opportunities (handler now2 inp) \<and>
   total_found (handler now1 inp) = total_found (handler now2 inp) \<and>
   handler now2 inp = (handler now1 inp)\<lparr>timestamp := now2\<rparr> \<and>
   internalApi expectedKey now2 req =
     (case internalApi expectedKey now1 req of
        (Json200 out, calls) \<Rightarrow> (Json200 (out\<lparr>timestamp := now2\<rparr>), calls)
      | (JsonError st e, calls) \<Rightarrow> (JsonError st e, calls))"
  by (simp add: handler_def internalApi_def Let_def split: option.splits sum.splits)

theorem C7_rerun_same_report_witness:
  "opportunities (handler ''2025-10-31T12:00:00.000Z''
       \<lparr>chain_id = 10, min_profit_pct = 3 / 10, token_addresses = None\<rparr>) =
   opportunities (handler ''2025-11-01T08:30:00.000Z''
       \<lparr>chain_id = 10, min_profit_pct = 3 / 10, token_addresses = None\<rparr>) \<and>
   map token_symbol (opportunities (handler ''2025-10-31T12:00:00.000Z''
       \<lparr>chain_id = 10, min_profit_pct = 3 / 10, token_addresses = None\<rparr>)) =
     [''USDC'', ''WETH'']"
proof -
  have "map token_symbol (opportunities (handler ''2025-10-31T12:00:00.000Z''
       \<lparr>chain_id = 10, min_profit_pct = 3 / 10, token_addresses = None\<rparr>)) =
     [''USDC'', ''WETH'']"
    by code_simp
  then show ?thesis
    using C7_rerun_same_report
      [where ?now1.0 = "''2025-10-31T12:00:00.000Z''" and ?now2.0 = "''2025-11-01T08:30:00.000Z''"
        and inp = "\<lparr>chain_id = 10, min_profit_pct = 3 / 10, token_addresses = None\<rparr>"]
    by blast
qed

section \<open>The two filters\<close>

text \<open>
  C9: every opportunity \<open>findArbitrage\<close> returns has a \<open>profit_percentage\<close> of at least
  \<^verbatim>\<open>min_profit_pct\<close>, and when a non-empty \<^verbatim>\<open>token_addresses\<close> list is given, its
  \<open>token_address\<close> is present and equal, after \<^verbatim>\<open>toLowerCase\<close> on both sides, to one of the
  given addresses. The two filters, run on any list of candidates, drop every candidate
  without a \<open>token_address\<close> when the address list is not empty. None of this depends
  on how \<open>toLowerCase\<close> maps a character.
\<close>

theorem C9_filters:
  "(\<forall>opp \<in> set (findArbitrage chainId minProfitPct tokenAddresses).
      profit_percentage opp \<ge> minProfitPct \<and>
      (\<forall>addrs. tokenAddresses = Some addrs \<and> addrs \<noteq> [] \<longrightarrow>
         (\<exists>addr \<in> set addrs. \<exists>tok. token_address opp = Some tok \<and>
            toLowerCase tok = toLowerCase addr))) \<and>
   findArbitrage chainId minProfitPct tokenAddresses =
     filterOpportunities (mockOpportunities (gasCost chainId)) minProfitPct tokenAddresses \<and>
   (\<forall>addrs opp. addrs \<noteq> [] \<and> token_address opp = None \<longrightarrow>
      opp \<notin> set (filterOpportunities candidates minProfitPct (Some addrs)))"
proof (intro conjI ballI allI impI)
  fix opp
  assume "opp \<in> set (findArbitrage chainId minProfitPct tokenAddresses)"
  then show "profit_percentage opp \<ge> minProfitPct"
    by (simp add: findArbitrage_filterOpportunities filterOpportunities_profit)
next
  fix opp :: ArbitrageOpportunity and addrs :: "string list"
  assume "opp \<in> set (findArbitrage chainId minProfitPct tokenAddresses)"
    and "tokenAddresses = Some addrs \<and> addrs \<noteq> []"
  then have "address_listed addrs opp"
    by (simp add: findArbitrage_filterOpportunities filterOpportunities_listed)
  then show "\<exists>addr \<in> set addrs. \<exists>tok. token_address opp = Some tok \<and>
            toLowerCase tok = toLowerCase addr"
    by (simp add: address_listed_iff)
next
  show "findArbitrage chainId minProfitPct tokenAddresses =
     filterOpportunities (mockOpportunities (gasCost chainId)) minProfitPct tokenAddresses"
    by (rule findArbitrage_filterOpportunities)
next
  fix addrs :: "string list" and opp :: ArbitrageOpportunity
  assume a: "addrs \<noteq> [] \<and> token_address opp = None"
  show "opp \<notin> set (filterOpportunities candidates minProfitPct (Some addrs))"
  proof
    assume "opp \<in> set (filterOpportunities candidates minProfitPct (Some addrs))"
    with a have "address_listed addrs opp"
      by (simp add: filterOpportunities_listed)
    with a show False
      by (simp add: address_listed_iff)
  qed
qed

theorem C9_filters_witness:
  "map token_symbol
     (findArbitrage 1 (3 / 10) (Some [''0XA0B86991C6218B36C1D19D4A2E9EB0CE3606EB48''])) =
     [''USDC''] \<and>
   list_all (\<lambda>opp. profit_percentage opp \<ge> 3 / 10 \<and>
       (\<exists>tok. token_address opp = Some tok \<and>
          toLowerCase tok = toLowerCase ''0XA0B86991C6218B36C1D19D4A2E9EB0CE3606EB48''))
     (findArbitrage 1 (3 / 10) (Some [''0XA0B86991C6218B36C1D19D4A2E9EB0CE3606EB48''])) \<and>
   filterOpportunities
     [\<lparr>token_symbol = ''DAI'', token_address = None, buy_dex = ''Curve'',
       sell_dex = ''Balancer'', buy_price = 1, sell_price = 101 / 100,
       profit_percentage = 1, profit_usd_per_1k = 10, gas_cost_usd = 5,
       net_profit_usd = 5, executable = True\<rparr>]
     0 (Some [''0xdai'']) = []"
proof -
  have a: "map token_symbol
     (findArbitrage 1 (3 / 10) (Some [''0XA0B86991C6218B36C1D19D4A2E9EB0CE3606EB48''])) =
     [''USDC'']"
    by code_simp
  have b: "list_all (\<lambda>opp. profit_percentage opp \<ge> 3 / 10 \<and>
       (\<exists>tok. token_address opp = Some tok \<and>
          toLowerCase tok = toLowerCase ''0XA0B86991C6218B36C1D19D4A2E9EB0CE3606EB48''))
     (findArbitrage 1 (3 / 10) (Some [''0XA0B86991C6218B36C1D19D4A2E9EB0CE3606EB48'']))"
    using C9_filters
      [where chainId = 1 and minProfitPct = "3 / 10"
        and tokenAddresses = "Some [''0XA0B86991C6218B36C1D19D4A2E9EB0CE3606EB48'']"]
    unfolding list_all_iff by fastforce
  have c: "filterOpportunities
     [\<lparr>token_symbol = ''DAI'', token_address = None, buy_dex = ''Curve'',
       sell_dex = ''Balancer'', buy_price = 1, sell_price = 101 / 100,
       profit_percentage = 1, profit_usd_per_1k = 10, gas_cost_usd = 5,
       net_profit_usd = 5, executable = True\<rparr>]
     0 (Some [''0xdai'']) = []"
    by code_simp
  from a b c show ?thesis by blast
qed

section \<open>The gas cost of a chain\<close>

text \<open>
  C10: \<open>findArbitrage\<close> returns a result for every chain id. For a chain id that is not
  a key of \<^verbatim>\<open>CHAIN_GAS_COSTS\<close> the gas cost is the default 2.5 USD, and every opportunity
  of one result carries the same \<open>gas_cost_usd\<close>, the one resolved for the requested
  chain. With no threshold and no address filter the three candidates come back whatever
  the chain id is.
\<close>

theorem C10_gas_cost_default_and_uniform:
  "(chainId \<notin> set (map fst CHAIN_GAS_COSTS) \<longrightarrow> gasCost chainId = 5 / 2) \<and>
   (\<forall>opp \<in> set (findArbitrage chainId minProfitPct tokenAddresses).
      gas_cost_usd opp = gasCost chainId) \<and>
   map token_symbol (findArbitrage chainId 0 None) = [''USDC'', ''WETH'', ''USDT'']"
proof (intro conjI ballI impI)
  assume "chainId \<notin> set (map fst CHAIN_GAS_COSTS)"
  then have "map_of CHAIN_GAS_COSTS chainId = None"
    by (simp add: map_of_eq_None_iff)
  then show "gasCost chainId = 5 / 2"
    by (simp add: gasCost_def or_default_def)
next
  fix opp
  assume "opp \<in> set (findArbitrage chainId minProfitPct tokenAddresses)"
  then have "opp \<in> set (mockOpportunities (gasCost chainId))"
    using findArbitrage_subset by blast
  then show "gas_cost_usd opp = gasCost chainId"
    by (rule mock_gas)
next
  show "map token_symbol (findArbitrage chainId 0 None) = [''USDC'', ''WETH'', ''USDT'']"
    by (simp add: findArbitrage_def mockOpportunities_def)
qed

theorem C10_gas_cost_default_and_uniform_witness:
  "gasCost 999 = 5 / 2 \<and>
   map gas_cost_usd (findArbitrage 999 0 None) = [5 / 2, 5 / 2, 5 / 2] \<and>
   map gas_cost_usd (findArbitrage 42161 0 None) = [15 / 100, 15 / 100, 15 / 100]"
proof -
  have "(999 :: rat) \<notin> set (map fst CHAIN_GAS_COSTS)"
    by (simp add: CHAIN_GAS_COSTS_def)
  then have "gasCost 999 = 5 / 2"
    using C10_gas_cost_default_and_uniform [of 999] by blast
  moreover have "map gas_cost_usd (findArbitrage 999 0 None) = [5 / 2, 5 / 2, 5 / 2]"
    by code_simp
  moreover have
    "map gas_cost_usd (findArbitrage 42161 0 None) = [15 / 100, 15 / 100, 15 / 100]"
    by code_simp
  ultimately show ?thesis by blast
qed

end
